theory Spec2Isabelle
  imports Complex_Main
begin

section \<open>The values and the host of \<^verbatim>\<open>timing.js\<close>\<close>

text \<open>
  The module reads three things of its host: \<^verbatim>\<open>window.performance\<close> (with its
  \<^verbatim>\<open>timing\<close> and \<^verbatim>\<open>navigation\<close> objects and its clocks),
  \<^verbatim>\<open>document.readyState\<close> and \<^verbatim>\<open>console.warn\<close>. The values that
  flow through the interval calculator are \<^verbatim>\<open>undefined\<close>, \<^verbatim>\<open>NaN\<close> and finite
  numbers. Numbers are rationals here: the arithmetic is the ideal one, without the rounding
  of IEEE doubles and without infinities. A single quotient of two integer marks is the
  number the program rounds to its nearest double; where the program subtracts two such
  quotients, a concrete value is stated below only to the precision that survives the
  rounding.
\<close>

datatype jsval = Undefined | NaN | Num rat

text \<open>\<^verbatim>\<open>if (v)\<close>: \<^verbatim>\<open>undefined\<close>, \<^verbatim>\<open>NaN\<close> and \<^verbatim>\<open>0\<close> are falsy.\<close>

fun truthy :: "jsval \<Rightarrow> bool" where
  "truthy Undefined = False"
| "truthy NaN = False"
| "truthy (Num x) = (x \<noteq> 0)"

text \<open>\<^verbatim>\<open>a - b\<close> and \<^verbatim>\<open>a / 1000\<close>: \<^verbatim>\<open>undefined\<close> converts to \<^verbatim>\<open>NaN\<close>, and
  \<^verbatim>\<open>NaN\<close> is absorbing.\<close>

fun js_sub :: "jsval \<Rightarrow> jsval \<Rightarrow> jsval" where
  "js_sub (Num a) (Num b) = Num (a - b)"
| "js_sub _ _ = NaN"

fun js_div1000 :: "jsval \<Rightarrow> jsval" where
  "js_div1000 (Num a) = Num (a / 1000)"
| "js_div1000 _ = NaN"

record navigation =
  nav_type :: int
  redirectCount :: int

record performance =
  perf_timing :: "(string \<Rightarrow> jsval) option"
  perf_navigation :: "navigation option"
  perf_has_now :: bool
  perf_has_webkitNow :: bool

record window =
  win_performance :: "performance option"
  win_console_warn :: bool
  doc_readyState :: string

text \<open>
  Reading a property of \<^verbatim>\<open>undefined\<close> throws a \<^verbatim>\<open>TypeError\<close>; a block handed
  to the stopwatch may throw anything.
\<close>

datatype error = TypeError | Thrown string

text \<open>
  A computation of the module threads the lines written to \<^verbatim>\<open>console.warn\<close> and
  either returns a value or throws.
\<close>

type_synonym 'a comp = "string list \<Rightarrow> error + ('a \<times> string list)"

definition ret :: "'a \<Rightarrow> 'a comp" where
  "ret v lg = Inr (v, lg)"

definition throw :: "error \<Rightarrow> 'a comp" where
  "throw e lg = Inl e"

definition andThen :: "'a comp \<Rightarrow> ('a \<Rightarrow> 'b comp) \<Rightarrow> 'b comp" where
  "andThen m f lg = (case m lg of Inl e \<Rightarrow> Inl e | Inr (v, lg') \<Rightarrow> f v lg')"

text \<open>What the caller sees of a computation: the value returned, or the exception.\<close>

definition outcome :: "'a comp \<Rightarrow> string list \<Rightarrow> error + 'a" where
  "outcome m lg = (case m lg of Inl e \<Rightarrow> Inl e | Inr (v, lg') \<Rightarrow> Inr v)"

section \<open>Feature detection\<close>

definition performance_implemented :: "window \<Rightarrow> bool" where
  "performance_implemented w = (win_performance w \<noteq> None)"

definition timing_implemented :: "window \<Rightarrow> bool" where
  "timing_implemented w =
     (case win_performance w of None \<Rightarrow> False | Some p \<Rightarrow> perf_timing p \<noteq> None)"

definition navigation_implemented :: "window \<Rightarrow> bool" where
  "navigation_implemented w =
     (case win_performance w of None \<Rightarrow> False | Some p \<Rightarrow> perf_navigation p \<noteq> None)"

text \<open>
  \<^verbatim>\<open>warn\<close> writes to \<^verbatim>\<open>console.warn\<close> only when the window has a console
  with such a method (\<open>win_console_warn\<close>); otherwise it does nothing.
\<close>

definition warn :: "window \<Rightarrow> string \<Rightarrow> unit comp" where
  "warn w message lg = (if win_console_warn w then Inr ((), lg @ [message]) else Inr ((), lg))"

text \<open>The warnings of the feature detection when the module is initialised.\<close>

definition init_warnings :: "window \<Rightarrow> unit comp" where
  "init_warnings w =
     (if performance_implemented w then
        andThen (if \<not> timing_implemented w
                 then warn w ''window.performance.timing is not implement.'' else ret ())
          (\<lambda>_. if \<not> navigation_implemented w
                then warn w ''window.performance.navigation is not implement.'' else ret ())
      else warn w ''window.performance is not implement.'')"

section \<open>Navigation metadata\<close>

text \<open>
  A \<^verbatim>\<open>switch\<close> whose cases have no \<^verbatim>\<open>break\<close>: control enters at the first case
  whose label is strictly equal to the value and then runs every later body as well.
\<close>

fun switch_fallthrough :: "'a \<Rightarrow> ('a \<times> ('s \<Rightarrow> 's)) list \<Rightarrow> 's \<Rightarrow> 's" where
  "switch_fallthrough v [] s = s"
| "switch_fallthrough v ((l, body) # cases) s =
     (if v = l then fold snd ((l, body) # cases) s else switch_fallthrough v cases s)"

text \<open>\<^verbatim>\<open>var navigationType\<close>: \<open>None\<close> is \<^verbatim>\<open>undefined\<close>.\<close>

definition navigationType :: "window \<Rightarrow> string option" where
  "navigationType w =
     (if navigation_implemented w then
        (case win_performance w of
           Some p \<Rightarrow>
             (case perf_navigation p of
                Some n \<Rightarrow>
                  switch_fallthrough (nav_type n)
                    [(0, \<lambda>_. Some ''navigation''),
                     (1, \<lambda>_. Some ''reload''),
                     (2, \<lambda>_. Some ''history''),
                     (255, \<lambda>_. Some ''unknown'')] None
              | None \<Rightarrow> None)
         | None \<Rightarrow> None)
      else None)"

definition redirects :: "window \<Rightarrow> int option" where
  "redirects w =
     (if navigation_implemented w then
        (case win_performance w of
           Some p \<Rightarrow> map_option redirectCount (perf_navigation p)
         | None \<Rightarrow> None)
      else None)"

section \<open>The interval calculator\<close>

definition ready :: "window \<Rightarrow> bool" where
  "ready w = (doc_readyState w = ''complete'')"

text \<open>\<^verbatim>\<open>window.performance.timing[key]\<close>, which throws when an object on the path
  is missing.\<close>

definition performance_timing_at :: "window \<Rightarrow> string \<Rightarrow> jsval comp" where
  "performance_timing_at w key =
     (case win_performance w of
        None \<Rightarrow> throw TypeError
      | Some p \<Rightarrow> (case perf_timing p of None \<Rightarrow> throw TypeError | Some t \<Rightarrow> ret (t key)))"

definition get :: "window \<Rightarrow> string \<Rightarrow> jsval comp" where
  "get w key =
     (if timing_implemented w then
        andThen
          (if \<not> ready w
           then warn w ''document is not loaded yet, timing for some segments may be incorrect.''
           else ret ())
          (\<lambda>_. performance_timing_at w key)
      else ret Undefined)"

definition timing :: "window \<Rightarrow> string \<Rightarrow> string \<Rightarrow> jsval comp" where
  "timing w start end =
     (if timing_implemented w then
        andThen (get w start) (\<lambda>t0.
        andThen (get w end) (\<lambda>t1.
          if truthy t0 \<and> truthy t1 then ret (js_div1000 (js_sub t1 t0)) else ret Undefined))
      else ret Undefined)"

text \<open>\<^verbatim>\<open>a !== 0 && b !== 0\<close>: the second lookup runs only when the first is not zero.\<close>

definition fromSameOrigin :: "window \<Rightarrow> bool comp" where
  "fromSameOrigin w =
     andThen (get w ''unloadEventStart'') (\<lambda>a.
       if a \<noteq> Num 0 then andThen (get w ''unloadEventEnd'') (\<lambda>b. ret (b \<noteq> Num 0))
       else ret False)"

definition real_js :: "window \<Rightarrow> jsval comp" where
  "real_js w = timing w ''navigationStart'' ''loadEventEnd''"

definition total_js :: "window \<Rightarrow> jsval comp" where
  "total_js w = timing w ''fetchStart'' ''loadEventEnd''"

definition network :: "window \<Rightarrow> jsval comp" where
  "network w = timing w ''fetchStart'' ''responseEnd''"

definition redirect :: "window \<Rightarrow> jsval comp" where
  "redirect w = timing w ''redirectEnd'' ''redirectStart''"

definition download :: "window \<Rightarrow> jsval comp" where
  "download w = timing w ''responseStart'' ''responseEnd''"

definition application :: "window \<Rightarrow> jsval comp" where
  "application w = timing w ''requestStart'' ''responseEnd''"

definition dns :: "window \<Rightarrow> jsval comp" where
  "dns w = timing w ''domainLookupStart'' ''domainLookupEnd''"

definition tcp :: "window \<Rightarrow> jsval comp" where
  "tcp w = timing w ''connectStart'' ''connectEnd''"

definition ssl :: "window \<Rightarrow> jsval comp" where
  "ssl w = timing w ''secureConnectionStart'' ''connectEnd''"

definition request :: "window \<Rightarrow> jsval comp" where
  "request w = timing w ''requestStart'' ''responseStart''"

definition response :: "window \<Rightarrow> jsval comp" where
  "response w = timing w ''responseStart'' ''responseEnd''"

definition parse :: "window \<Rightarrow> jsval comp" where
  "parse w = timing w ''domLoading'' ''domInteractive''"

definition dom_js :: "window \<Rightarrow> jsval comp" where
  "dom_js w = timing w ''domLoading'' ''domComplete''"

text \<open>\<^verbatim>\<open>external\<close> calls \<^verbatim>\<open>dom\<close> and \<^verbatim>\<open>parse\<close> once for the test and once more
  for the difference.\<close>

definition external :: "window \<Rightarrow> jsval comp" where
  "external w =
     andThen (dom_js w) (\<lambda>d.
     andThen (parse w) (\<lambda>p.
       if d \<noteq> Undefined \<and> p \<noteq> Undefined
       then andThen (dom_js w) (\<lambda>d'. andThen (parse w) (\<lambda>p'. ret (js_sub d' p')))
       else ret Undefined))"

definition load :: "window \<Rightarrow> jsval comp" where
  "load w = timing w ''loadEventStart'' ''loadEventEnd''"

definition domContentLoad :: "window \<Rightarrow> jsval comp" where
  "domContentLoad w = timing w ''domContentLoadedEventStart'' ''domContentLoadedEventEnd''"

definition unload :: "window \<Rightarrow> jsval comp" where
  "unload w = timing w ''unloadEventStart'' ''unloadEventEnd''"

definition timeToFirstByte :: "window \<Rightarrow> jsval comp" where
  "timeToFirstByte w = timing w ''fetchStart'' ''responseStart''"

definition timeToLastByte :: "window \<Rightarrow> jsval comp" where
  "timeToLastByte w = timing w ''fetchStart'' ''responseEnd''"

definition timeToInteractive :: "window \<Rightarrow> jsval comp" where
  "timeToInteractive w = timing w ''fetchStart'' ''domInteractive''"

definition timeToDomComplete :: "window \<Rightarrow> jsval comp" where
  "timeToDomComplete w = timing w ''fetchStart'' ''domComplete''"

definition timeToDomReady :: "window \<Rightarrow> jsval comp" where
  "timeToDomReady w = timing w ''fetchStart'' ''domContentLoadedEventEnd''"

section \<open>The text report\<close>

definition digit_char :: "nat \<Rightarrow> char" where
  "digit_char d = ''0123456789'' ! d"

text \<open>The decimal digits of a natural number, without leading zeros (\<open>0\<close> is \<^verbatim>\<open>"0"\<close>).\<close>

fun digits :: "nat \<Rightarrow> string" where
  "digits n = (if n < 10 then [digit_char n] else digits (n div 10) @ [digit_char (n mod 10)])"

declare digits.simps [simp del]

text \<open>
  \<^verbatim>\<open>value.toFixed(3)\<close>, after the language standard: \<^verbatim>\<open>undefined\<close> has no such
  method, \<^verbatim>\<open>NaN\<close> prints as itself, a sign is split off, \<open>n\<close> is the integer nearest
  to a thousand times the magnitude (the larger one at a tie), its digits are padded with
  zeros to four and the point goes before the last three. From \<open>10\<^sup>2\<^sup>1\<close> on the
  standard prints the number in its general format instead, which is the built-in
  \<open>toString\<close> taken as a parameter here.
\<close>

definition number_toFixed3 :: "(rat \<Rightarrow> string) \<Rightarrow> rat \<Rightarrow> string" where
  "number_toFixed3 toString x =
     (let s = (if x < 0 then ''-'' else []); x = \<bar>x\<bar> in
      if x \<ge> 10 ^ 21 then s @ toString x
      else
        (let n = nat \<lfloor>x * 1000 + 1 / 2\<rfloor>;
             m = digits n;
             k = length m;
             m = (if k \<le> 3 then replicate (4 - k) (CHR ''0'') @ m else m);
             k = length m
         in s @ take (k - 3) m @ ''.'' @ drop (k - 3) m))"

definition toFixed3 :: "(rat \<Rightarrow> string) \<Rightarrow> jsval \<Rightarrow> string comp" where
  "toFixed3 toString v =
     (case v of
        Undefined \<Rightarrow> throw TypeError
      | NaN \<Rightarrow> ret ''NaN''
      | Num x \<Rightarrow> ret (number_toFixed3 toString x))"

definition nl :: string where
  "nl = [CHR 0x0A]"

definition pp :: "(rat \<Rightarrow> string) \<Rightarrow> jsval comp \<Rightarrow> string comp" where
  "pp toString f =
     andThen f (\<lambda>v.
       if v = Undefined then ret (''N/A'' @ nl)
       else andThen (toFixed3 toString v) (\<lambda>t. ret ((t @ ''s'') @ nl)))"

text \<open>\<^verbatim>\<open>output += label + pp(f)\<close>.\<close>

definition add_line :: "(rat \<Rightarrow> string) \<Rightarrow> string \<Rightarrow> string \<Rightarrow> jsval comp \<Rightarrow> string comp" where
  "add_line toString output label f = andThen (pp toString f) (\<lambda>t. ret (output @ label @ t))"

definition log_js :: "(rat \<Rightarrow> string) \<Rightarrow> window \<Rightarrow> string comp" where
  "log_js toString w =
     (let output = nl;
          output = output @ ''Timings'' @ nl;
          output = output @ ''-----------------------------'' @ nl
      in
      andThen (add_line toString output ''               Network '' (network w)) (\<lambda>output.
      andThen (add_line toString output ''              Download '' (download w)) (\<lambda>output.
      andThen (add_line toString output ''           Application '' (application w)) (\<lambda>output.
      andThen (add_line toString output ''                 Parse '' (parse w)) (\<lambda>output.
      andThen (add_line toString output ''       External Assets '' (external w)) (\<lambda>output.
      andThen (add_line toString output ''              Document '' (dom_js w)) (\<lambda>output.
      let output = output @ nl in
      andThen (add_line toString output ''    Time to First Byte '' (timeToFirstByte w)) (\<lambda>output.
      andThen (add_line toString output ''   Time to Interactive '' (timeToInteractive w)) (\<lambda>output.
      andThen (add_line toString output ''Time to Document Ready '' (timeToDomReady w)) (\<lambda>output.
      andThen (add_line toString output ''    Total Time to Load '' (total_js w)) (\<lambda>output.
      ret output)))))))))))"

section \<open>The stopwatch\<close>

text \<open>
  The clock is chosen once: \<^verbatim>\<open>performance.now\<close>, else \<^verbatim>\<open>performance.webkitNow\<close>,
  else \<^verbatim>\<open>Date.now\<close>.
\<close>

datatype clock_source = PerformanceNow | WebkitNow | DateNow

definition now_source :: "window \<Rightarrow> clock_source" where
  "now_source w =
     (case win_performance w of
        Some p \<Rightarrow>
          (if perf_has_now p then PerformanceNow
           else if perf_has_webkitNow p then WebkitNow
           else DateNow)
      | None \<Rightarrow> DateNow)"

definition now_is_native :: "window \<Rightarrow> bool" where
  "now_is_native w =
     (case win_performance w of
        Some p \<Rightarrow> (if perf_has_now p then True else if perf_has_webkitNow p then True else False)
      | None \<Rightarrow> False)"

text \<open>The warning of the initialisation when no native clock was found.\<close>

definition now_warning :: "window \<Rightarrow> unit comp" where
  "now_warning w =
     (if now_source w = DateNow
      then warn w ''window.performance.now is not implemented, using Date.now''
      else ret ())"

text \<open>
  A block is arbitrary code of the caller: run with a binding and arguments on the state of
  the page it returns, throws or never comes back. Reading a clock is an action on the same
  state.
\<close>

datatype 'a run = Returns 'a | Throws error | Diverges

type_synonym ('v, 'st) block = "'v \<Rightarrow> 'v list \<Rightarrow> 'st \<Rightarrow> 'st run"

definition now :: "(clock_source \<Rightarrow> 'st \<Rightarrow> rat \<times> 'st) \<Rightarrow> window \<Rightarrow> 'st \<Rightarrow> rat \<times> 'st" where
  "now read_clock w = read_clock (now_source w)"

text \<open>
  \<^verbatim>\<open>timeMS(block, binding, arg1, ...)\<close>: the call's \<^verbatim>\<open>arguments\<close> are the block
  followed by \<open>rest\<close>; a first argument that is no function is \<open>None\<close>, and applying it
  throws. \<open>global\<close> is the \<^verbatim>\<open>window\<close> object as a value.
\<close>

definition timeMS ::
  "(clock_source \<Rightarrow> 'st \<Rightarrow> rat \<times> 'st) \<Rightarrow> window \<Rightarrow> 'v \<Rightarrow>
   ('v, 'st) block option \<Rightarrow> 'v list \<Rightarrow> 'st \<Rightarrow> (rat \<times> 'st) run" where
  "timeMS read_clock w global block rest st =
     (let args = drop 1 rest;
          binding = (case rest of [] \<Rightarrow> global | b # _ \<Rightarrow> b);
          (start, st1) = now read_clock w st
      in case block of
           None \<Rightarrow> Throws TypeError
         | Some f \<Rightarrow>
             (case f binding args st1 of
                Returns st2 \<Rightarrow>
                  (let (fin, st3) = now read_clock w st2 in Returns (fin - start, st3))
              | Throws e \<Rightarrow> Throws e
              | Diverges \<Rightarrow> Diverges))"

text \<open>\<^verbatim>\<open>timeMS.apply(this, arguments) / 1000\<close>: the same call, its result scaled.\<close>

definition time ::
  "(clock_source \<Rightarrow> 'st \<Rightarrow> rat \<times> 'st) \<Rightarrow> window \<Rightarrow> 'v \<Rightarrow>
   ('v, 'st) block option \<Rightarrow> 'v list \<Rightarrow> 'st \<Rightarrow> (rat \<times> 'st) run" where
  "time read_clock w global block rest st =
     (case timeMS read_clock w global block rest st of
        Returns (ms, st') \<Rightarrow> Returns (ms / 1000, st')
      | Throws e \<Rightarrow> Throws e
      | Diverges \<Rightarrow> Diverges)"

definition measure_js ::
  "(clock_source \<Rightarrow> 'st \<Rightarrow> rat \<times> 'st) \<Rightarrow> window \<Rightarrow> 'v \<Rightarrow>
   ('v, 'st) block option \<Rightarrow> 'v list \<Rightarrow> 'st \<Rightarrow> (rat \<times> 'st) run" where
  "measure_js = time"

text \<open>The table of the module's public metric functions, aliases included.\<close>

definition catalog :: "(string \<times> (window \<Rightarrow> jsval comp)) list" where
  "catalog =
     [(''real'', real_js), (''total'', total_js), (''network'', network),
      (''redirect'', redirect), (''download'', download), (''application'', application),
      (''dns'', dns), (''tcp'', tcp), (''ssl'', ssl), (''request'', request),
      (''response'', response), (''parse'', parse), (''external'', external),
      (''dom'', dom_js), (''load'', load), (''domContentLoad'', domContentLoad),
      (''unload'', unload), (''timeToFirstByte'', timeToFirstByte),
      (''ttfb'', timeToFirstByte), (''timeToLastByte'', timeToLastByte),
      (''ttlb'', timeToLastByte), (''timeToInteractive'', timeToInteractive),
      (''tti'', timeToInteractive), (''timeToDomComplete'', timeToDomComplete),
      (''ttdc'', timeToDomComplete), (''timeToDomReady'', timeToDomReady),
      (''ttdr'', timeToDomReady), (''timeToLoad'', total_js), (''ttl'', total_js)]"

section \<open>Notions used in the statements and proofs\<close>

text \<open>
  What a lookup and an interval evaluate to, as functions of the host alone; the lemmas
  below show that \<open>get\<close> and \<open>timing\<close> return exactly these, whatever was warned before.
\<close>

definition mark :: "window \<Rightarrow> string \<Rightarrow> jsval" where
  "mark w key =
     (case win_performance w of
        None \<Rightarrow> Undefined
      | Some p \<Rightarrow> (case perf_timing p of None \<Rightarrow> Undefined | Some t \<Rightarrow> t key))"

definition interval :: "window \<Rightarrow> string \<Rightarrow> string \<Rightarrow> jsval" where
  "interval w s e =
     (if truthy (mark w s) \<and> truthy (mark w e) then js_div1000 (js_sub (mark w e) (mark w s))
      else Undefined)"

definition yields :: "'a comp \<Rightarrow> 'a \<Rightarrow> bool" where
  "yields f v = (\<forall>lg. \<exists>lg'. f lg = Inr (v, lg'))"

text \<open>
  The report as the specification words it: a duration in seconds with exactly three
  decimals (the magnitude rounded to thousandths, half up) and the suffix \<^verbatim>\<open>s\<close>, or
  the placeholder.
\<close>

definition seconds3 :: "rat \<Rightarrow> string" where
  "seconds3 x =
     (let n = nat \<lfloor>\<bar>x\<bar> * 1000 + 1 / 2\<rfloor> in
      (if x < 0 then ''-'' else []) @ digits (n div 1000) @ ''.'' @
      [digit_char (n div 100 mod 10), digit_char (n div 10 mod 10), digit_char (n mod 10)])"

definition report_line :: "string \<Rightarrow> jsval \<Rightarrow> string" where
  "report_line label v =
     label @ (case v of Undefined \<Rightarrow> ''N/A'' | NaN \<Rightarrow> ''N/A'' | Num x \<Rightarrow> seconds3 x @ ''s'') @ nl"

text \<open>Durations below \<open>10\<^sup>2\<^sup>1\<close> seconds, where \<^verbatim>\<open>toFixed\<close> prints in fixed notation.\<close>

definition printable :: "jsval \<Rightarrow> bool" where
  "printable v = (case v of Num x \<Rightarrow> \<bar>x\<bar> < 10 ^ 21 | _ \<Rightarrow> True)"

subsection \<open>Concrete hosts\<close>

text \<open>A mark table given as an object literal: a key that is not listed reads as
  \<^verbatim>\<open>undefined\<close>.\<close>

definition object_literal :: "(string \<times> rat) list \<Rightarrow> string \<Rightarrow> jsval" where
  "object_literal kvs key = (case map_of kvs key of None \<Rightarrow> Undefined | Some ms \<Rightarrow> Num ms)"

definition page :: "(string \<Rightarrow> jsval) \<Rightarrow> bool \<Rightarrow> string \<Rightarrow> window" where
  "page t c r =
     \<lparr>win_performance =
        Some \<lparr>perf_timing = Some t, perf_navigation = None,
              perf_has_now = True, perf_has_webkitNow = False\<rparr>,
      win_console_warn = c, doc_readyState = r\<rparr>"

definition scenario_marks :: "(string \<times> rat) list" where
  "scenario_marks =
     [(''fetchStart'', 100), (''domainLookupStart'', 110), (''domainLookupEnd'', 140),
      (''connectStart'', 140), (''connectEnd'', 180), (''requestStart'', 180),
      (''responseStart'', 300), (''responseEnd'', 350), (''domLoading'', 350),
      (''domInteractive'', 500), (''domComplete'', 700), (''loadEventStart'', 700),
      (''loadEventEnd'', 720), (''navigationStart'', 50)]"

definition scenario :: "bool \<Rightarrow> string \<Rightarrow> window" where
  "scenario c r = page (object_literal scenario_marks) c r"

definition no_performance :: "bool \<Rightarrow> string \<Rightarrow> window" where
  "no_performance c r = \<lparr>win_performance = None, win_console_warn = c, doc_readyState = r\<rparr>"

definition navigated :: "int \<Rightarrow> window" where
  "navigated t =
     \<lparr>win_performance =
        Some \<lparr>perf_timing = None,
              perf_navigation = Some \<lparr>nav_type = t, redirectCount = 0\<rparr>,
              perf_has_now = True, perf_has_webkitNow = False\<rparr>,
      win_console_warn = True, doc_readyState = ''complete''\<rparr>"

section \<open>What the lookups and intervals return\<close>

lemma get_returns: "\<exists>lg'. get w key lg = Inr (mark w key, lg')"
  by (simp add: get_def mark_def timing_implemented_def performance_timing_at_def andThen_def
      warn_def ret_def throw_def split: option.splits)

lemma outcome_get: "outcome (get w key) lg = Inr (mark w key)"
  using get_returns [of w key lg] by (auto simp: outcome_def)

lemma mark_absent: "\<not> timing_implemented w \<Longrightarrow> mark w key = Undefined"
  by (simp add: mark_def timing_implemented_def split: option.splits)

lemma mark_page: "mark (page t c r) key = t key"
  by (simp add: mark_def page_def)

lemma timing_returns: "\<exists>lg'. timing w s e lg = Inr (interval w s e, lg')"
proof (cases "timing_implemented w")
  case True
  obtain l1 where g1: "get w s lg = Inr (mark w s, l1)"
    using get_returns by blast
  obtain l2 where g2: "get w e l1 = Inr (mark w e, l2)"
    using get_returns by blast
  show ?thesis
    using True g1 g2 by (simp add: timing_def andThen_def interval_def ret_def)
next
  case False
  then show ?thesis
    by (simp add: timing_def interval_def ret_def mark_absent)
qed

lemma outcome_timing: "outcome (timing w s e) lg = Inr (interval w s e)"
  using timing_returns [of w s e lg] by (auto simp: outcome_def)

lemma interval_not_NaN: "interval w s e \<noteq> NaN"
  by (cases "mark w s"; cases "mark w e") (simp_all add: interval_def)

lemma interval_Num:
  "mark w s = Num a \<Longrightarrow> a \<noteq> 0 \<Longrightarrow> mark w e = Num b \<Longrightarrow> b \<noteq> 0 \<Longrightarrow>
   interval w s e = Num ((b - a) / 1000)"
  by (simp add: interval_def)

lemma interval_Undefined:
  "mark w s = Undefined \<or> mark w s = Num 0 \<or> mark w e = Undefined \<or> mark w e = Num 0 \<Longrightarrow>
   interval w s e = Undefined"
  by (auto simp: interval_def)

lemma interval_absent: "\<not> timing_implemented w \<Longrightarrow> interval w s e = Undefined"
  by (simp add: interval_def mark_absent)

lemma fromSameOrigin_returns:
  "\<exists>lg'. fromSameOrigin w lg =
     Inr (mark w ''unloadEventStart'' \<noteq> Num 0 \<and> mark w ''unloadEventEnd'' \<noteq> Num 0, lg')"
proof -
  obtain l1 where g1: "get w ''unloadEventStart'' lg = Inr (mark w ''unloadEventStart'', l1)"
    using get_returns by blast
  obtain l2 where g2: "get w ''unloadEventEnd'' l1 = Inr (mark w ''unloadEventEnd'', l2)"
    using get_returns by blast
  show ?thesis
    using g1 g2 by (simp add: fromSameOrigin_def andThen_def ret_def)
qed

lemma outcome_fromSameOrigin:
  "outcome (fromSameOrigin w) lg =
     Inr (mark w ''unloadEventStart'' \<noteq> Num 0 \<and> mark w ''unloadEventEnd'' \<noteq> Num 0)"
  using fromSameOrigin_returns [of w lg] by (auto simp: outcome_def)

lemma external_returns:
  "\<exists>lg'. external w lg =
     Inr (if interval w ''domLoading'' ''domComplete'' \<noteq> Undefined \<and>
             interval w ''domLoading'' ''domInteractive'' \<noteq> Undefined
          then js_sub (interval w ''domLoading'' ''domComplete'')
                 (interval w ''domLoading'' ''domInteractive'')
          else Undefined, lg')"
proof -
  let ?d = "interval w ''domLoading'' ''domComplete''"
  let ?p = "interval w ''domLoading'' ''domInteractive''"
  obtain l1 where g1: "dom_js w lg = Inr (?d, l1)"
    unfolding dom_js_def using timing_returns by blast
  obtain l2 where g2: "parse w l1 = Inr (?p, l2)"
    unfolding parse_def using timing_returns by blast
  obtain l3 where g3: "dom_js w l2 = Inr (?d, l3)"
    unfolding dom_js_def using timing_returns by blast
  obtain l4 where g4: "parse w l3 = Inr (?p, l4)"
    unfolding parse_def using timing_returns by blast
  show ?thesis
    using g1 g2 g3 g4 by (simp add: external_def andThen_def ret_def)
qed

lemma outcome_external:
  "outcome (external w) lg =
     Inr (if interval w ''domLoading'' ''domComplete'' \<noteq> Undefined \<and>
             interval w ''domLoading'' ''domInteractive'' \<noteq> Undefined
          then js_sub (interval w ''domLoading'' ''domComplete'')
                 (interval w ''domLoading'' ''domInteractive'')
          else Undefined)"
  using external_returns [of w lg] by (auto simp: outcome_def)

lemmas metric_defs =
  real_js_def total_js_def network_def redirect_def download_def application_def dns_def
  tcp_def ssl_def request_def response_def parse_def dom_js_def load_def domContentLoad_def
  unload_def timeToFirstByte_def timeToLastByte_def timeToInteractive_def
  timeToDomComplete_def timeToDomReady_def

lemmas scenario_defs = scenario_def object_literal_def scenario_marks_def

section \<open>The pairwise interval\<close>

text \<open>
  Claim C1. When both raw lookups give an available value (a number other than zero) and the
  end mark is not before the start mark, \<open>timing\<close> returns the difference of the two
  values divided by 1000; for two equal available marks that is the number 0, not
  \<^verbatim>\<open>undefined\<close>.
\<close>

theorem timing_of_available_marks:
  assumes "outcome (get w start) lg0 = Inr (Num a)" and "a \<noteq> 0"
    and "outcome (get w end) lg1 = Inr (Num b)" and "b \<noteq> 0"
    and "a \<le> b"
  shows "outcome (timing w start end) lg = Inr (Num ((b - a) / 1000)) \<and>
         (a = b \<longrightarrow> outcome (timing w start end) lg = Inr (Num 0))"
proof -
  from assms have "mark w start = Num a" and "mark w end = Num b"
    by (simp_all add: outcome_get)
  with assms have "interval w start end = Num ((b - a) / 1000)"
    by (simp add: interval_Num)
  then show ?thesis
    by (simp add: outcome_timing)
qed

theorem timing_of_available_marks_witness:
  "outcome (timing (scenario True ''complete'') ''domainLookupStart'' ''domainLookupEnd'') [] =
     Inr (Num 0.030) \<and>
   outcome (timing (scenario True ''complete'') ''domainLookupEnd'' ''connectStart'') [] =
     Inr (Num 0)"
  using timing_of_available_marks [of "scenario True ''complete''" "''domainLookupStart''" "[]"
      110 "''domainLookupEnd''" "[]" 140 "[]"]
    timing_of_available_marks [of "scenario True ''complete''" "''domainLookupEnd''" "[]"
      140 "''connectStart''" "[]" 140 "[]"]
  by (simp add: outcome_get mark_page scenario_defs)

text \<open>
  Claim C2. When either raw lookup gives \<^verbatim>\<open>undefined\<close> or zero, \<open>timing\<close> returns
  \<^verbatim>\<open>undefined\<close>, which is neither the number 0 nor \<^verbatim>\<open>NaN\<close>; so with
  \<^verbatim>\<open>redirectStart\<close> and \<^verbatim>\<open>redirectEnd\<close> both zero the redirect time is
  \<^verbatim>\<open>undefined\<close>.
\<close>

theorem timing_not_available:
  "(outcome (get w start) lg0 = Inr v0 \<and> outcome (get w end) lg1 = Inr v1 \<and>
    (v0 = Undefined \<or> v0 = Num 0 \<or> v1 = Undefined \<or> v1 = Num 0)
    \<longrightarrow> outcome (timing w start end) lg = Inr Undefined) \<and>
   (outcome (get w ''redirectStart'') lg0 = Inr (Num 0) \<and>
    outcome (get w ''redirectEnd'') lg1 = Inr (Num 0)
    \<longrightarrow> outcome (redirect w) lg = Inr Undefined)"
  by (auto simp: outcome_get outcome_timing redirect_def interval_Undefined)

theorem timing_not_available_witness:
  "outcome (timing (scenario True ''complete'') ''secureConnectionStart'' ''connectEnd'') [] =
     Inr Undefined \<and>
   outcome (redirect (page (object_literal [(''redirectStart'', 0), (''redirectEnd'', 0)])
       True ''complete'')) [] = Inr Undefined"
  using timing_not_available [of "scenario True ''complete''" "''secureConnectionStart''" "[]"
      Undefined "''connectEnd''" "[]" "Num 180" "[]"]
    timing_not_available [of
      "page (object_literal [(''redirectStart'', 0), (''redirectEnd'', 0)]) True ''complete''"
      "''redirectStart''" "[]" "Num 0" "''redirectEnd''" "[]" "Num 0" "[]"]
  by (simp add: outcome_get mark_page scenario_defs)

section \<open>The catalog\<close>

text \<open>
  Claim C4. The redirect time is the pairwise interval with \<^verbatim>\<open>redirectEnd\<close> as its
  start mark and \<^verbatim>\<open>redirectStart\<close> as its end mark: with both marks available it is
  \<^verbatim>\<open>redirectStart\<close> minus \<^verbatim>\<open>redirectEnd\<close>, divided by 1000.
\<close>

theorem redirect_is_reversed:
  "redirect w = timing w ''redirectEnd'' ''redirectStart'' \<and>
   (outcome (get w ''redirectStart'') lg0 = Inr (Num rs) \<and> rs \<noteq> 0 \<and>
    outcome (get w ''redirectEnd'') lg1 = Inr (Num re) \<and> re \<noteq> 0
    \<longrightarrow> outcome (redirect w) lg = Inr (Num ((rs - re) / 1000)))"
  by (auto simp: outcome_get outcome_timing redirect_def interval_Num)

theorem redirect_is_reversed_witness:
  "outcome (redirect (page (object_literal [(''redirectStart'', 60), (''redirectEnd'', 90)])
       True ''complete'')) [] = Inr (Num (- 0.030))"
  using redirect_is_reversed [of
      "page (object_literal [(''redirectStart'', 60), (''redirectEnd'', 90)]) True ''complete''"
      "[]" 60 "[]" 90 "[]"]
  by (simp add: redirect_def outcome_get mark_page object_literal_def)

text \<open>
  Claim C8. With the document total time and the parse time both available, the external
  assets time is their difference; with either of them \<^verbatim>\<open>undefined\<close> it is
  \<^verbatim>\<open>undefined\<close>. Neither operand is ever \<^verbatim>\<open>NaN\<close>, so these are all the cases.
\<close>

theorem external_is_dom_minus_parse:
  assumes "outcome (dom_js w) lg0 = Inr d" and "outcome (parse w) lg1 = Inr p"
  shows "(d = Num x \<and> p = Num y \<longrightarrow> outcome (external w) lg = Inr (Num (x - y))) \<and>
         (d = Undefined \<or> p = Undefined \<longrightarrow> outcome (external w) lg = Inr Undefined) \<and>
         d \<noteq> NaN \<and> p \<noteq> NaN"
proof -
  from assms have d: "interval w ''domLoading'' ''domComplete'' = d"
    and p: "interval w ''domLoading'' ''domInteractive'' = p"
    by (simp_all add: dom_js_def parse_def outcome_timing)
  have "d \<noteq> NaN" "p \<noteq> NaN"
    using interval_not_NaN [of w "''domLoading''" "''domComplete''"]
      interval_not_NaN [of w "''domLoading''" "''domInteractive''"] d p by auto
  then show ?thesis
    by (auto simp: outcome_external d p)
qed

theorem external_is_dom_minus_parse_witness:
  "outcome (external (page (object_literal
       [(''domLoading'', 250), (''domInteractive'', 500), (''domComplete'', 1000)])
       True ''complete'')) [] = Inr (Num 0.5) \<and>
   outcome (external (page (object_literal
       [(''domLoading'', 350), (''domInteractive'', 500), (''domComplete'', 0)])
       True ''interactive'')) [] = Inr Undefined"
  using external_is_dom_minus_parse [of
      "page (object_literal [(''domLoading'', 250), (''domInteractive'', 500),
         (''domComplete'', 1000)]) True ''complete''"
      "[]" "Num 0.75" "[]" "Num 0.25" "0.75" "0.25" "[]"]
    external_is_dom_minus_parse [of
      "page (object_literal [(''domLoading'', 350), (''domInteractive'', 500),
         (''domComplete'', 0)]) True ''interactive''"
      "[]" Undefined "[]" "Num 0.150" 0 0 "[]"]
  by (simp add: dom_js_def parse_def outcome_timing interval_def mark_page object_literal_def)

section \<open>Same-origin detection\<close>

text \<open>
  Claim C5, as the code has it. \<open>fromSameOrigin\<close> returns true exactly when the lookups of
  \<^verbatim>\<open>unloadEventStart\<close> and \<^verbatim>\<open>unloadEventEnd\<close> are both different from the
  number zero, and false as soon as one of them is zero; in particular false when both are.
\<close>

theorem fromSameOrigin_both_nonzero:
  assumes "outcome (get w ''unloadEventStart'') lg0 = Inr a"
    and "outcome (get w ''unloadEventEnd'') lg1 = Inr b"
  shows "outcome (fromSameOrigin w) lg = Inr (a \<noteq> Num 0 \<and> b \<noteq> Num 0)"
  using assms by (simp add: outcome_get outcome_fromSameOrigin)

theorem fromSameOrigin_both_nonzero_witness:
  "outcome (fromSameOrigin (page (object_literal
       [(''unloadEventStart'', 60), (''unloadEventEnd'', 75)]) True ''complete'')) [] =
     Inr True \<and>
   outcome (fromSameOrigin (page (object_literal
       [(''unloadEventStart'', 0), (''unloadEventEnd'', 0)]) True ''complete'')) [] =
     Inr False"
  using fromSameOrigin_both_nonzero [of
      "page (object_literal [(''unloadEventStart'', 60), (''unloadEventEnd'', 75)])
         True ''complete''"
      "[]" "Num 60" "[]" "Num 75" "[]"]
    fromSameOrigin_both_nonzero [of
      "page (object_literal [(''unloadEventStart'', 0), (''unloadEventEnd'', 0)])
         True ''complete''"
      "[]" "Num 0" "[]" "Num 0" "[]"]
  by (simp add: outcome_get mark_page object_literal_def)

text \<open>
  Claim C5 as it was stated asks for true whenever at least one unload mark is not zero. With
  \<^verbatim>\<open>unloadEventStart\<close> at 60 and \<^verbatim>\<open>unloadEventEnd\<close> still zero the code
  returns false.
\<close>

theorem fromSameOrigin_counterexample:
  "outcome (get (page (object_literal [(''unloadEventStart'', 60), (''unloadEventEnd'', 0)])
       True ''complete'') ''unloadEventStart'') [] = Inr (Num 60) \<and>
   outcome (get (page (object_literal [(''unloadEventStart'', 60), (''unloadEventEnd'', 0)])
       True ''complete'') ''unloadEventEnd'') [] = Inr (Num 0) \<and>
   outcome (fromSameOrigin (page (object_literal
       [(''unloadEventStart'', 60), (''unloadEventEnd'', 0)]) True ''complete'')) [] =
     Inr False"
  by (simp add: outcome_get outcome_fromSameOrigin mark_page object_literal_def)

section \<open>The report\<close>

lemma digits_nonempty: "digits n \<noteq> []"
  by (subst digits.simps) simp

lemma digits_small: "n < 10 \<Longrightarrow> digits n = [digit_char n]"
  by (subst digits.simps) simp

lemma digits_step: "10 \<le> n \<Longrightarrow> digits n = digits (n div 10) @ [digit_char (n mod 10)]"
  by (subst digits.simps) simp

lemma digit_char_0: "digit_char 0 = CHR ''0''"
  by (simp add: digit_char_def)

lemma digits_last3:
  assumes "1000 \<le> n"
  shows "digits n = digits (n div 1000) @
    [digit_char (n div 100 mod 10), digit_char (n div 10 mod 10), digit_char (n mod 10)]"
proof -
  have a: "10 \<le> n" and b: "10 \<le> n div 10" and c: "10 \<le> n div 10 div 10"
    using assms by simp_all
  have e: "n div 10 div 10 = n div 100" "n div 100 div 10 = n div 1000"
    by (simp_all add: div_mult2_eq [symmetric])
  show ?thesis
    using digits_step [OF a] digits_step [OF b] digits_step [OF c] by (simp add: e)
qed

text \<open>Padding to four digits and cutting before the last three gives the whole seconds
  and the three decimals.\<close>

lemma toFixed3_split:
  fixes n :: nat
  defines "m \<equiv> (if length (digits n) \<le> 3
                  then replicate (4 - length (digits n)) (CHR ''0'') @ digits n else digits n)"
  shows "take (length m - 3) m @ ''.'' @ drop (length m - 3) m =
         digits (n div 1000) @ ''.'' @
         [digit_char (n div 100 mod 10), digit_char (n div 10 mod 10), digit_char (n mod 10)]"
proof -
  note pad = m_def digits_small digit_char_0 numeral_2_eq_2 numeral_3_eq_3
  consider "n < 10" | "10 \<le> n" "n < 100" | "100 \<le> n" "n < 1000" | "1000 \<le> n"
    by linarith
  then show ?thesis
  proof cases
    case 1
    then show ?thesis
      by (simp add: pad)
  next
    case 2
    then have "digits n = [digit_char (n div 10), digit_char (n mod 10)]"
      by (simp add: digits_step digits_small)
    with 2 show ?thesis
      by (simp add: pad)
  next
    case 3
    then have "digits n =
        [digit_char (n div 10 div 10), digit_char (n div 10 mod 10), digit_char (n mod 10)]"
      by (simp add: digits_step digits_small)
    moreover have "n div 10 div 10 = n div 100"
      by (simp add: div_mult2_eq [symmetric])
    moreover have "n div 100 mod 10 = n div 100"
      using 3 by simp
    ultimately show ?thesis
      using 3 by (simp add: pad)
  next
    case 4
    then show ?thesis
      using digits_nonempty [of "n div 1000"]
      by (simp add: m_def digits_last3 [OF 4] Suc_le_eq)
  qed
qed

lemma number_toFixed3_seconds3:
  "\<bar>x\<bar> < 10 ^ 21 \<Longrightarrow> number_toFixed3 toString x = seconds3 x"
  using toFixed3_split [of "nat \<lfloor>\<bar>x\<bar> * 1000 + 1 / 2\<rfloor>"]
  by (simp add: number_toFixed3_def seconds3_def Let_def)

lemma floor_rat_numeral_divide:
  "\<lfloor>numeral a / numeral b :: rat\<rfloor> = numeral a div numeral b"
  using floor_divide_of_int_eq [of "numeral a" "numeral b", where ?'a = rat] by simp

lemma yieldsI: "(\<And>lg. \<exists>lg'. f lg = Inr (v, lg')) \<Longrightarrow> yields f v"
  by (simp add: yields_def)

lemma yields_outcome:
  assumes "yields f v"
  shows "outcome f lg = Inr v"
proof -
  from assms obtain lg' where "f lg = Inr (v, lg')"
    unfolding yields_def by blast
  then show ?thesis
    by (simp add: outcome_def)
qed

lemma yields_timing: "yields (timing w s e) (interval w s e)"
  by (rule yieldsI) (rule timing_returns)

lemma yields_external:
  "yields (external w)
     (if interval w ''domLoading'' ''domComplete'' \<noteq> Undefined \<and>
         interval w ''domLoading'' ''domInteractive'' \<noteq> Undefined
      then js_sub (interval w ''domLoading'' ''domComplete'')
             (interval w ''domLoading'' ''domInteractive'')
      else Undefined)"
  by (rule yieldsI) (rule external_returns)



lemma pp_line:
  assumes "f lg = Inr (v, lg')" and "v \<noteq> NaN" and "printable v"
  shows "add_line toString output label f lg = Inr (output @ report_line label v, lg')"
  using assms
  by (cases v)
    (simp_all add: add_line_def pp_def andThen_def ret_def toFixed3_def report_line_def
      printable_def number_toFixed3_seconds3)

text \<open>One \<^verbatim>\<open>output += label + pp(f)\<close> of the report, followed by the rest \<open>k\<close>.\<close>

lemma add_line_step:
  assumes "yields f v" and "v \<noteq> NaN" and "printable v"
    and "\<And>lg. outcome (k (output @ report_line label v)) lg = Inr r"
  shows "outcome (andThen (add_line toString output label f) k) lg = Inr r"
proof -
  obtain lg' where "f lg = Inr (v, lg')"
    using assms(1) unfolding yields_def by blast
  then have "add_line toString output label f lg = Inr (output @ report_line label v, lg')"
    using assms(2,3) by (rule pp_line)
  then show ?thesis
    using assms(4) [of lg'] by (simp add: outcome_def andThen_def)
qed

lemma outcome_ret: "outcome (ret v) lg = Inr v"
  by (simp add: outcome_def ret_def)

lemma printable_Undefined: "printable Undefined"
  by (simp add: printable_def)

lemma absent_report:
  assumes "\<not> timing_implemented w"
  shows "outcome (log_js toString w) lg =
    Inr (nl @ ''Timings'' @ nl @
         ''-----------------------------'' @ nl @
         ''               Network N/A'' @ nl @
         ''              Download N/A'' @ nl @
         ''           Application N/A'' @ nl @
         ''                 Parse N/A'' @ nl @
         ''       External Assets N/A'' @ nl @
         ''              Document N/A'' @ nl @
         nl @
         ''    Time to First Byte N/A'' @ nl @
         ''   Time to Interactive N/A'' @ nl @
         ''Time to Document Ready N/A'' @ nl @
         ''    Total Time to Load N/A'' @ nl)"
proof -
  have t: "yields (timing w s e) Undefined" for s e
    using yields_timing [of w s e] assms by (simp add: interval_absent)
  have x: "yields (external w) Undefined"
    using yields_external [of w] assms by (simp add: interval_absent)
  note u = t x printable_Undefined
  show ?thesis
    unfolding log_js_def Let_def
    apply (rule add_line_step [where v = Undefined], simp_all add: network_def u)
    apply (rule add_line_step [where v = Undefined], simp_all add: download_def u)
    apply (rule add_line_step [where v = Undefined], simp_all add: application_def u)
    apply (rule add_line_step [where v = Undefined], simp_all add: parse_def u)
    apply (rule add_line_step [where v = Undefined], simp_all add: u)
    apply (rule add_line_step [where v = Undefined], simp_all add: dom_js_def u)
    apply (rule add_line_step [where v = Undefined], simp_all add: timeToFirstByte_def u)
    apply (rule add_line_step [where v = Undefined], simp_all add: timeToInteractive_def u)
    apply (rule add_line_step [where v = Undefined], simp_all add: timeToDomReady_def u)
    apply (rule add_line_step [where v = Undefined], simp_all add: total_js_def u)
    apply (simp add: outcome_ret report_line_def)
    done
qed



section \<open>The scenario\<close>

lemma pp_renders:
  assumes "yields f v" and "v \<noteq> NaN" and "printable v"
  shows "outcome (pp toString f) lg = Inr (report_line [] v)"
proof -
  obtain lg' where "f lg = Inr (v, lg')"
    using assms(1) unfolding yields_def by blast
  then show ?thesis
    using assms(2,3)
    by (cases v)
      (simp_all add: outcome_def pp_def andThen_def ret_def toFixed3_def report_line_def
        printable_def number_toFixed3_seconds3)
qed

lemma scenario_external: "yields (external (scenario c r)) (Num 0.200)"
  using yields_external [of "scenario c r"]
  by (simp add: interval_def mark_page scenario_defs)

text \<open>
  Claim C3. On the mark table of the scenario the metrics are: DNS lookup 0.030 s, TCP connect
  0.040 s, request 0.120 s, download 0.050 s, network 0.250 s, parse 0.150 s, document total
  0.350 s, external assets 0.200 s, total load 0.620 s, total page 0.670 s and time to first
  byte 0.200 s, whatever the console and the state of the document. Ten of the eleven are one
  quotient of two integers, and the number named is that quotient. The external assets time
  is a difference of two such quotients, 0.350 minus 0.150, which binary floating point does
  not return as the number 0.2 itself but as its neighbour just below; so for this metric
  the statement is the one that holds with and without that rounding: the value is 0.200 to
  the three decimals the claim writes, and it prints as \<^verbatim>\<open>0.200s\<close>.
\<close>

theorem scenario_metrics:
  "outcome (dns (scenario c r)) lg = Inr (Num 0.030) \<and>
   outcome (tcp (scenario c r)) lg = Inr (Num 0.040) \<and>
   outcome (request (scenario c r)) lg = Inr (Num 0.120) \<and>
   outcome (download (scenario c r)) lg = Inr (Num 0.050) \<and>
   outcome (network (scenario c r)) lg = Inr (Num 0.250) \<and>
   outcome (parse (scenario c r)) lg = Inr (Num 0.150) \<and>
   outcome (dom_js (scenario c r)) lg = Inr (Num 0.350) \<and>
   (\<exists>x. outcome (external (scenario c r)) lg = Inr (Num x) \<and> \<bar>x - 0.200\<bar> < 0.0005) \<and>
   outcome (pp toString (external (scenario c r))) lg = Inr (''0.200s'' @ nl) \<and>
   outcome (total_js (scenario c r)) lg = Inr (Num 0.620) \<and>
   outcome (real_js (scenario c r)) lg = Inr (Num 0.670) \<and>
   outcome (timeToFirstByte (scenario c r)) lg = Inr (Num 0.200)"
proof -
  note ev = outcome_timing interval_def mark_page scenario_defs
  have "outcome (dns (scenario c r)) lg = Inr (Num 0.030)"
    by (simp add: dns_def ev)
  moreover have "outcome (tcp (scenario c r)) lg = Inr (Num 0.040)"
    by (simp add: tcp_def ev)
  moreover have "outcome (request (scenario c r)) lg = Inr (Num 0.120)"
    by (simp add: request_def ev)
  moreover have "outcome (download (scenario c r)) lg = Inr (Num 0.050)"
    by (simp add: download_def ev)
  moreover have "outcome (network (scenario c r)) lg = Inr (Num 0.250)"
    by (simp add: network_def ev)
  moreover have "outcome (parse (scenario c r)) lg = Inr (Num 0.150)"
    by (simp add: parse_def ev)
  moreover have "outcome (dom_js (scenario c r)) lg = Inr (Num 0.350)"
    by (simp add: dom_js_def ev)
  moreover have "\<exists>x. outcome (external (scenario c r)) lg = Inr (Num x) \<and>
      \<bar>x - 0.200\<bar> < 0.0005"
    using yields_outcome [OF scenario_external, of c r lg]
    by (intro exI [of _ "0.200"]) simp
  moreover have "outcome (pp toString (external (scenario c r))) lg = Inr (''0.200s'' @ nl)"
    using pp_renders [OF scenario_external, of toString c r lg]
    by (simp add: printable_def report_line_def seconds3_def Let_def digits_small digit_char_def
        floor_rat_numeral_divide)
  moreover have "outcome (total_js (scenario c r)) lg = Inr (Num 0.620)"
    by (simp add: total_js_def ev)
  moreover have "outcome (real_js (scenario c r)) lg = Inr (Num 0.670)"
    by (simp add: real_js_def ev)
  moreover have "outcome (timeToFirstByte (scenario c r)) lg = Inr (Num 0.200)"
    by (simp add: timeToFirstByte_def ev)
  ultimately show ?thesis
    by blast
qed

section \<open>A host without the mark source\<close>

text \<open>
  Claim C6, as the code has it. On a host without \<^verbatim>\<open>window.performance.timing\<close>
  every metric function of the catalog returns \<^verbatim>\<open>undefined\<close>, and so do the raw
  lookup and the pairwise interval; the report shows \<^verbatim>\<open>N/A\<close> on every line; the
  same-origin check returns a boolean; the ready check still reports whether the document is
  complete; and none of these calls throws.
\<close>

theorem absent_source_degrades:
  assumes "\<not> timing_implemented w"
  shows "list_all (\<lambda>(name, f). outcome (f w) lg = Inr Undefined) catalog \<and>
         outcome (get w key) lg = Inr Undefined \<and>
         outcome (timing w start end) lg = Inr Undefined \<and>
         (outcome (fromSameOrigin w) lg = Inr True \<or>
          outcome (fromSameOrigin w) lg = Inr False) \<and>
         ready w = (doc_readyState w = ''complete'') \<and>
         outcome (log_js toString w) lg =
           Inr (nl @ ''Timings'' @ nl @
                ''-----------------------------'' @ nl @
                ''               Network N/A'' @ nl @
                ''              Download N/A'' @ nl @
                ''           Application N/A'' @ nl @
                ''                 Parse N/A'' @ nl @
                ''       External Assets N/A'' @ nl @
                ''              Document N/A'' @ nl @
                nl @
                ''    Time to First Byte N/A'' @ nl @
                ''   Time to Interactive N/A'' @ nl @
                ''Time to Document Ready N/A'' @ nl @
                ''    Total Time to Load N/A'' @ nl)"
proof -
  have "list_all (\<lambda>(name, f). outcome (f w) lg = Inr Undefined) catalog"
    using assms
    by (simp add: catalog_def metric_defs outcome_timing outcome_external interval_absent)
  moreover have "outcome (get w key) lg = Inr Undefined"
    using assms by (simp add: outcome_get mark_absent)
  moreover have "outcome (timing w start end) lg = Inr Undefined"
    using assms by (simp add: outcome_timing interval_absent)
  moreover have "outcome (fromSameOrigin w) lg = Inr True \<or>
      outcome (fromSameOrigin w) lg = Inr False"
    by (auto simp: outcome_fromSameOrigin)
  moreover have "ready w = (doc_readyState w = ''complete'')"
    by (simp add: ready_def)
  ultimately show ?thesis
    using absent_report [OF assms] by simp
qed

theorem absent_source_degrades_witness:
  "\<not> timing_implemented (no_performance True ''loading'') \<and>
   outcome (dns (no_performance True ''loading'')) [] = Inr Undefined \<and>
   outcome (external (no_performance True ''loading'')) [] = Inr Undefined \<and>
   outcome (redirect (no_performance True ''loading'')) [] = Inr Undefined \<and>
   ready (no_performance True ''loading'') = False"
proof -
  have h: "\<not> timing_implemented (no_performance True ''loading'')"
    by (simp add: no_performance_def timing_implemented_def)
  show ?thesis
    using h absent_source_degrades [OF h, of "[]" "''fetchStart''" "''fetchStart''"
        "''responseEnd''" "\<lambda>x. []"]
    by (simp add: catalog_def no_performance_def)
qed

text \<open>
  Claim C6 as it was stated has the same-origin check and the ready check come back negative
  on such a host. With no \<^verbatim>\<open>window.performance\<close> at all and a document that is
  complete, both return true.
\<close>

theorem absent_source_counterexample:
  "\<not> timing_implemented (no_performance True ''complete'') \<and>
   outcome (fromSameOrigin (no_performance True ''complete'')) [] = Inr True \<and>
   ready (no_performance True ''complete'') = True"
  by (simp add: no_performance_def timing_implemented_def ready_def outcome_def
      fromSameOrigin_def get_def andThen_def ret_def)

section \<open>The navigation type\<close>

text \<open>
  Claim C7. The navigation type is meant to be read off the table 0 to
  \<^verbatim>\<open>navigation\<close>, 1 to \<^verbatim>\<open>reload\<close>, 2 to \<^verbatim>\<open>history\<close>, 255 to
  \<^verbatim>\<open>unknown\<close>. The cases of the \<^verbatim>\<open>switch\<close> do not end in
  \<^verbatim>\<open>break\<close>, so each of the four codes runs on into the last assignment and the
  stored type is \<^verbatim>\<open>unknown\<close> for all of them; any other code leaves it
  \<^verbatim>\<open>undefined\<close>.
\<close>

theorem navigationType_falls_through:
  "navigationType (navigated 0) = Some ''unknown'' \<and>
   navigationType (navigated 1) = Some ''unknown'' \<and>
   navigationType (navigated 2) = Some ''unknown'' \<and>
   navigationType (navigated 255) = Some ''unknown'' \<and>
   navigationType (navigated 3) = None"
  by (simp add: navigationType_def navigated_def navigation_implemented_def)

section \<open>The stopwatch in seconds\<close>

text \<open>
  Claim C10. \<open>time\<close>, also exported as \<^verbatim>\<open>measure\<close>, is \<open>timeMS\<close> on the same
  block, binding and arguments with the result divided by 1000: when \<open>timeMS\<close> returns
  \<open>ms\<close> and leaves the page in a state, \<open>time\<close> returns \<open>ms / 1000\<close> and leaves the
  same state; when \<open>timeMS\<close> throws or does not return, neither does \<open>time\<close>.
\<close>

theorem time_is_timeMS_scaled:
  "(timeMS read_clock w global block rest st = Returns (ms, st')
    \<longrightarrow> time read_clock w global block rest st = Returns (ms / 1000, st') \<and>
        measure_js read_clock w global block rest st = Returns (ms / 1000, st')) \<and>
   (timeMS read_clock w global block rest st = Throws e
    \<longrightarrow> time read_clock w global block rest st = Throws e) \<and>
   (timeMS read_clock w global block rest st = Diverges
    \<longrightarrow> time read_clock w global block rest st = Diverges)"
  by (simp add: time_def measure_js_def)

theorem time_is_timeMS_scaled_witness:
  "timeMS (\<lambda>src st. (st, st)) (no_performance True ''complete'') (0::nat)
     (Some (\<lambda>binding args st. Returns (st + 250))) [] (1000::rat) = Returns (250, 1250) \<and>
   time (\<lambda>src st. (st, st)) (no_performance True ''complete'') (0::nat)
     (Some (\<lambda>binding args st. Returns (st + 250))) [] (1000::rat) = Returns (0.250, 1250)"
  using time_is_timeMS_scaled [of "\<lambda>src st. (st, st)" "no_performance True ''complete''"
      "0::nat" "Some (\<lambda>binding args st. Returns (st + 250))" "[]" "1000::rat" 250 1250
      TypeError]
  by (simp add: timeMS_def now_def)

end
